theory Spec2Isabelle
  imports Complex_Main
begin

section \<open>Python values, exceptions and results\<close>

text \<open>
  The scripts of the repository are Python. An exception is a value of
  \<open>py_error\<close>; a call that may raise returns \<open>py_error + 'a\<close>, with \<open>Inl\<close> for
  the exception. \<open>InvalidFieldIndex\<close> and \<open>InvalidConfig\<close> are the error names of
  the specification; no statement of the Python sources raises them.
\<close>

datatype py_error =
    AttributeError string
  | NameError string
  | ImportError
  | IndexError
  | ValueError string
  | CalledProcessError
  | Exception string
  | InvalidFieldIndex
  | InvalidConfig

text \<open>
  A Python object, as far as attribute access goes: the attributes it has, by name.
  \<open>obj.attr\<close> raises \<open>AttributeError\<close> when the object has no such attribute.
\<close>

type_synonym py_object = "string \<rightharpoonup> string"

definition getattr :: "py_object \<Rightarrow> string \<Rightarrow> py_error + string" where
  "getattr obj attr = (case obj attr of None \<Rightarrow> Inl (AttributeError attr) | Some v \<Rightarrow> Inr v)"

text \<open>
  The class \<open>Entry\<close> (module \<open>utils.data\<close>) is not among the sources. The sources read
  the attribute \<open>help_query\<close> of an entry, name its \<open>user_id\<close> and take the module name
  at index 1; an \<open>Entry\<close> is a record of these, and \<open>entry_object\<close> is the Python
  object it is at run time.
\<close>

record Entry =
  user_id :: string
  name :: string
  help_query :: string

definition entry_object :: "Entry \<Rightarrow> py_object" where
  "entry_object e =
     [''user_id'' \<mapsto> user_id e, ''name'' \<mapsto> name e, ''help_query'' \<mapsto> help_query e]"

section \<open>randomizers/help\_query\_randomizer.py\<close>

text \<open>
  \<^verbatim>\<open>
    with file_util.openForRandomizerWriting(
      file_util.HELP_QUERY_RANDOMIZER_OUTPUT_FILE_NAME) as f:
      #TODO(rudominer) This is just placeholder--we are emitting the
      # plaintext entry. Replace this with an invocation of Forculus.
      writer = csv.writer(f)
      for entry in entries:
        writer.writerow([entry.help_query])
  \<close>
  The output file is the sequence of rows handed to \<open>writer.writerow\<close>, each row a list
  of cells. The run returns nothing; its result is whether it raised, together with the
  rows written up to that point.
\<close>

type_synonym csv_row = "string list"

definition writerow :: "csv_row list \<Rightarrow> csv_row \<Rightarrow> csv_row list" where
  "writerow f row = f @ [row]"

fun write_entries :: "py_object list \<Rightarrow> csv_row list \<Rightarrow> (py_error + unit) \<times> csv_row list" where
  "write_entries [] f = (Inr (), f)"
| "write_entries (entry # entries) f =
     (case getattr entry ''help_query'' of
        Inl err \<Rightarrow> (Inl err, f)
      | Inr q \<Rightarrow> write_entries entries (writerow f [q]))"

definition HelpQueryRandomizer_randomize ::
  "py_object list \<Rightarrow> (py_error + unit) \<times> csv_row list" where
  "HelpQueryRandomizer_randomize entries = write_entries entries []"

section \<open>config/config\_parser/test\_stable\_config\_parser.py\<close>

text \<open>
  \<^verbatim>\<open>
  def main():
    cmd = [CONFIG_PARSER_BIN, '-config_dir', CONFIG_DIR, '-out_format', 'b64']
    out1 = subprocess.check_output(cmd)
    out2 = subprocess.check_output(cmd)
    if out1 != out2:
      raise Exception('Two calls to the config_parser yielded different outputs!')
    print("PASS")
    return 0
  \<close>
  The state of a run is the list of command lines handed to \<open>subprocess.check_output\<close>
  so far and the lines printed. The child processes are the environment: \<open>env n cmd\<close>
  is the outcome of the \<open>n\<close>-th child of the run (counted from 0) when started with
  the command line \<open>cmd\<close>, either its standard output or the exception
  \<open>check_output\<close> raises for it. Two runs of one command line may answer differently,
  which is what the script tests. \<open>CONFIG_PARSER_BIN\<close> and \<open>CONFIG_DIR\<close> are paths
  computed from the location of the script; they are parameters.
\<close>

record proc_state =
  invoked :: "string list list"
  printed :: "string list"

type_synonym proc_env = "nat \<Rightarrow> string list \<Rightarrow> py_error + string"

definition check_output ::
  "proc_env \<Rightarrow> string list \<Rightarrow> proc_state \<Rightarrow> (py_error + string) \<times> proc_state" where
  "check_output env cmd s = (env (length (invoked s)) cmd, s\<lparr>invoked := invoked s @ [cmd]\<rparr>)"

definition print_line :: "string \<Rightarrow> proc_state \<Rightarrow> proc_state" where
  "print_line l s = s\<lparr>printed := printed s @ [l]\<rparr>"

definition parser_cmd :: "string \<Rightarrow> string \<Rightarrow> string list" where
  "parser_cmd CONFIG_PARSER_BIN CONFIG_DIR =
     [CONFIG_PARSER_BIN, ''-config_dir'', CONFIG_DIR, ''-out_format'', ''b64'']"

definition test_stable_config_parser_main ::
  "string \<Rightarrow> string \<Rightarrow> proc_env \<Rightarrow> (py_error + int) \<times> proc_state" where
  "test_stable_config_parser_main CONFIG_PARSER_BIN CONFIG_DIR env =
     (let cmd = parser_cmd CONFIG_PARSER_BIN CONFIG_DIR;
          s0 = \<lparr>invoked = [], printed = []\<rparr>
      in case check_output env cmd s0 of
           (Inl err, s1) \<Rightarrow> (Inl err, s1)
         | (Inr out1, s1) \<Rightarrow>
             (case check_output env cmd s1 of
                (Inl err, s2) \<Rightarrow> (Inl err, s2)
              | (Inr out2, s2) \<Rightarrow>
                  if out1 \<noteq> out2
                  then (Inl (Exception ''Two calls to the config_parser yielded different outputs!''), s2)
                  else (Inr 0, print_line ''PASS'' s2)))"

section \<open>prototype/randomizers/module\_name\_randomizer.py\<close>

text \<open>
  \<^verbatim>\<open>
  def randomize(self, entries, for_private_release=False):
    config_file = (file_util.RAPPOR_MODULE_NAME_PR_CONFIG if
        for_private_release else file_util.RAPPOR_MODULE_NAME_CONFIG)
    output_file = (file_util.MODULE_NAME_PR_RANDOMIZER_OUTPUT_FILE_NAME if
        for_private_release else
        file_util.MODULE_NAME_RANDOMIZER_OUTPUT_FILE_NAME)
    randomizer.randomizeUsingRappor(entries,
        [(1, True, config_file)],
        output_file)
  \<close>
  The modules \<open>utils.file_util\<close> and \<open>randomizer\<close> are not among the sources. The four
  constants of \<open>file_util\<close> that the method reads are the fields of a record, and
  \<open>randomizeUsingRappor\<close> is a parameter: the method does nothing but call it, so the
  result of the method is the result of that call. An omitted \<open>for_private_release\<close>
  is \<open>None\<close>, for which Python takes the default \<open>False\<close>.
\<close>

record file_util =
  RAPPOR_MODULE_NAME_PR_CONFIG :: string
  RAPPOR_MODULE_NAME_CONFIG :: string
  MODULE_NAME_PR_RANDOMIZER_OUTPUT_FILE_NAME :: string
  MODULE_NAME_RANDOMIZER_OUTPUT_FILE_NAME :: string

definition ModuleNameRandomizer_randomize ::
  "file_util \<Rightarrow> ('e list \<Rightarrow> (nat \<times> bool \<times> string) list \<Rightarrow> string \<Rightarrow> 'r) \<Rightarrow>
   'e list \<Rightarrow> bool option \<Rightarrow> 'r" where
  "ModuleNameRandomizer_randomize fu randomizeUsingRappor entries for_private_release_arg =
     (let for_private_release =
            (case for_private_release_arg of None \<Rightarrow> False | Some b \<Rightarrow> b);
          config_file =
            (if for_private_release then RAPPOR_MODULE_NAME_PR_CONFIG fu
             else RAPPOR_MODULE_NAME_CONFIG fu);
          output_file =
            (if for_private_release then MODULE_NAME_PR_RANDOMIZER_OUTPUT_FILE_NAME fu
             else MODULE_NAME_RANDOMIZER_OUTPUT_FILE_NAME fu)
      in randomizeUsingRappor entries [(1, True, config_file)] output_file)"

section \<open>tools/container\_util.py\<close>

text \<open>
  \<^verbatim>\<open>
  def main():
    _process_shuffler_yaml_file('cloud_project_prefix', 'cloud_project_name',
                                'gce_pd_name')

  if __name__ == '__main__':
    main()
  \<close>
  A function body finds a global name in the namespace of its module, then among the
  builtins, and raises \<open>NameError\<close> when it is in neither. The namespace of the module
  when \<open>main\<close> runs holds the names every module has (\<open>__name__\<close> and the like) and
  the names bound by the statements above the call: the imports, the assignments and the
  function definitions, and the variable \<open>f\<close> that the two list comprehensions of
  Python 2 leave behind. No builtin begins with a single
  underscore, so the builtins do not matter for the name \<open>main\<close> looks up.
\<close>

definition imported_names :: "string list" where
  "imported_names =
    [''fileinput'', ''os'', ''shutil'', ''subprocess'', ''sys'', ''process_starter'',
     ''ANALYZER_PRIVATE_KEY_PEM_NAME'', ''DEFAULT_ANALYZER_PRIVATE_KEY_PEM'',
     ''ANALYZER_SERVICE_PATH'', ''DEFAULT_ANALYZER_SERVICE_PORT'',
     ''DEFAULT_REPORT_MASTER_PORT'', ''DEFAULT_SHUFFLER_PORT'', ''REGISTERED_CONFIG_DIR'',
     ''REPORT_MASTER_PATH'', ''SHUFFLER_CONFIG_FILE'', ''SHUFFLER_PATH'']"

definition assigned_names :: "string list" where
  "assigned_names =
    [''THIS_DIR'', ''SRC_ROOT_DIR'', ''OUT_DIR'', ''SYS_ROOT_DIR'',
     ''CONTAINER_REGISTRY_URI'', ''KUBE_SRC_DIR'', ''COBALT_COMMON_DOCKER_FILE'',
     ''ANALYZER_SERVICE_DOCKER_FILE'', ''REPORT_MASTER_DOCKER_FILE'',
     ''SHUFFLER_DOCKER_FILE'', ''ANALYZER_SERVICE_DEPLOYMENT_YAML'',
     ''ANALYZER_SERVICE_DEPLOYMENT_TEMPLATE_FILE'', ''REPORT_MASTER_DEPLOYMENT_YAML'',
     ''REPORT_MASTER_DEPLOYMENT_TEMPLATE_FILE'', ''SHUFFLER_DEPLOYMENT_YAML'',
     ''SHUFFLER_DEPLOYMENT_TEMPLATE_FILE'', ''KUBE_OUT_DIR'',
     ''ANALYZER_SERVICE_DEPLOYMENT_FILE'', ''REPORT_MASTER_DEPLOYMENT_FILE'',
     ''SHUFFLER_DEPLOYMENT_FILE'', ''COBALT_COMMON_DOCKER_BUILD_DIR'',
     ''ANALYZER_SERVICE_DOCKER_BUILD_DIR'', ''REPORT_MASTER_DOCKER_BUILD_DIR'',
     ''SHUFFLER_DOCKER_BUILD_DIR'', ''COBALT_COMMON_IMAGE_NAME'',
     ''ANALYZER_SERVICE_IMAGE_NAME'', ''REPORT_MASTER_IMAGE_NAME'',
     ''SHUFFLER_IMAGE_NAME'', ''COBALT_COMMON_SO_FILES'', ''ROOTS_PEM'',
     ''ANALYZER_CONFIG_FILES'', ''ANALYZER_PRIVATE_KEY_SECRET_NAME'',
     ''f'']"

definition function_names :: "string list" where
  "function_names =
    [''_ensure_dir'', ''_set_contents_of_dir'', ''_build_cobalt_common_deploy_dir'',
     ''_build_analyzer_service_deploy_dir'', ''_build_report_master_deploy_dir'',
     ''_build_shuffler_deploy_dir'', ''_build_docker_image'', ''build_all_docker_images'',
     ''_image_registry_uri'', ''_push_to_container_registry'',
     ''push_analyzer_service_to_container_registry'',
     ''push_report_master_to_container_registry'', ''push_shuffler_to_container_registry'',
     ''_replace_tokens_in_template'', ''_compound_project_name'',
     ''_create_secret_from_file'', ''_delete_secret'',
     ''create_analyzer_private_key_secret'', ''delete_analyzer_private_key_secret'',
     ''_start_gke_service'', ''start_analyzer_service'', ''start_report_master'',
     ''start_shuffler'', ''_stop_gke_service'', ''stop_analyzer_service'',
     ''stop_report_master'', ''stop_shuffler'', ''authenticate'', ''display'', ''main'']"

definition implicit_names :: "string list" where
  "implicit_names = [''__builtins__'', ''__doc__'', ''__file__'', ''__name__'', ''__package__'']"

definition module_globals :: "string list" where
  "module_globals = implicit_names @ imported_names @ assigned_names @ function_names"

definition lookup_global :: "string \<Rightarrow> py_error + string" where
  "lookup_global n = (if n \<in> set module_globals then Inr n else Inl (NameError n))"

text \<open>
  What a run does to the world is the list of calls it makes to functions of the module,
  each with its arguments. \<open>main\<close> looks the name up first; only a name that is bound
  can be called.
\<close>

datatype effect = Called string "string list"

definition container_util_main :: "(py_error + unit) \<times> effect list" where
  "container_util_main =
     (case lookup_global ''_process_shuffler_yaml_file'' of
        Inl err \<Rightarrow> (Inl err, [])
      | Inr fn \<Rightarrow>
          (Inr (), [Called fn [''cloud_project_prefix'', ''cloud_project_name'', ''gce_pd_name'']]))"

text \<open>
  Run as a script, the module executes its imports (the module \<open>process_starter\<close> is
  not among the sources: \<open>import_failure\<close> is the exception its import raises, if any),
  then its assignments and definitions, and then calls \<open>main\<close>.
\<close>

definition run_as_script :: "py_error option \<Rightarrow> (py_error + unit) \<times> effect list" where
  "run_as_script import_failure =
     (case import_failure of
        Some err \<Rightarrow> (Inl err, [])
      | None \<Rightarrow> container_util_main)"

section \<open>tools/demo/generate\_viz.py\<close>

text \<open>
  A Python float is an IEEE 754 double: a finite number (the rational it stands for), an
  infinity or NaN. The sign of a zero is not kept: the script neither divides nor prints
  a sign, and its comparisons take the two zeros as equal.
\<close>

datatype float64 = Finite rat | PosInf | NegInf | NaN

text \<open>
  The result of an arithmetic operation on finite doubles is the exact result rounded to
  a double. The rounding is a parameter: \<open>rd x\<close> is the double nearest to \<open>x\<close>, and
  \<open>None\<close> when \<open>x\<close> lies beyond the largest double, where the operation overflows to
  the infinity of the sign of \<open>x\<close>.
\<close>

type_synonym rounding = "rat \<Rightarrow> rat option"

definition to_float64 :: "rounding \<Rightarrow> rat \<Rightarrow> float64" where
  "to_float64 rd x =
     (case rd x of Some y \<Rightarrow> Finite y | None \<Rightarrow> if 0 < x then PosInf else NegInf)"

fun float_neg :: "float64 \<Rightarrow> float64" where
  "float_neg (Finite x) = Finite (- x)"
| "float_neg PosInf = NegInf"
| "float_neg NegInf = PosInf"
| "float_neg NaN = NaN"

fun float_add :: "rounding \<Rightarrow> float64 \<Rightarrow> float64 \<Rightarrow> float64" where
  "float_add rd NaN b = NaN"
| "float_add rd a NaN = NaN"
| "float_add rd (Finite x) (Finite y) = to_float64 rd (x + y)"
| "float_add rd PosInf NegInf = NaN"
| "float_add rd NegInf PosInf = NaN"
| "float_add rd PosInf b = PosInf"
| "float_add rd NegInf b = NegInf"
| "float_add rd (Finite x) PosInf = PosInf"
| "float_add rd (Finite x) NegInf = NegInf"

definition float_sub :: "rounding \<Rightarrow> float64 \<Rightarrow> float64 \<Rightarrow> float64" where
  "float_sub rd a b = float_add rd a (float_neg b)"

fun float_mul :: "rounding \<Rightarrow> float64 \<Rightarrow> float64 \<Rightarrow> float64" where
  "float_mul rd NaN b = NaN"
| "float_mul rd a NaN = NaN"
| "float_mul rd (Finite x) (Finite y) = to_float64 rd (x * y)"
| "float_mul rd (Finite x) PosInf = (if x = 0 then NaN else if 0 < x then PosInf else NegInf)"
| "float_mul rd (Finite x) NegInf = (if x = 0 then NaN else if 0 < x then NegInf else PosInf)"
| "float_mul rd PosInf (Finite y) = (if y = 0 then NaN else if 0 < y then PosInf else NegInf)"
| "float_mul rd NegInf (Finite y) = (if y = 0 then NaN else if 0 < y then NegInf else PosInf)"
| "float_mul rd PosInf PosInf = PosInf"
| "float_mul rd PosInf NegInf = NegInf"
| "float_mul rd NegInf PosInf = NegInf"
| "float_mul rd NegInf NegInf = PosInf"

text \<open>
  Comparisons: every comparison with NaN is false, NaN being neither below, above nor
  equal to any number, itself included.
\<close>

fun float_less :: "float64 \<Rightarrow> float64 \<Rightarrow> bool" where
  "float_less NaN b = False"
| "float_less a NaN = False"
| "float_less (Finite x) (Finite y) = (x < y)"
| "float_less a NegInf = False"
| "float_less NegInf b = True"
| "float_less PosInf b = False"
| "float_less (Finite x) PosInf = True"

definition float_le :: "float64 \<Rightarrow> float64 \<Rightarrow> bool" where
  "float_le a b = (a \<noteq> NaN \<and> b \<noteq> NaN \<and> (float_less a b \<or> a = b))"

text \<open>
  Python's \<open>max(a, b)\<close> starts from \<open>a\<close> and takes \<open>b\<close> instead only when \<open>b > a\<close>
  holds. So \<open>max(a, 0)\<close> is \<open>a\<close> when \<open>a\<close> is NaN.
\<close>

definition py_max :: "float64 \<Rightarrow> float64 \<Rightarrow> float64" where
  "py_max a b = (if float_less a b then b else a)"

text \<open>
  \<^verbatim>\<open>
  with open(USAGE_BY_HOUR_CSV_FILE, 'rb') as csvfile:
    reader = csv.reader(csvfile)
    data = [{"hour" : int(row[0]), "estimate": max(float(row[1]), 0),
             "low" : max(float(row[1])  - 1.96 * float(row[2]), 0),
             "high": float(row[1]) + 1.96 * float(row[2])}
        for row in reader if reader.line_num > 1]
  \<close>
  The reader yields the rows of the file, each a list of cells; \<open>reader.line_num\<close> is
  the number of lines of the file read once the row has been yielded, so the input is
  the list of rows, each with that number. Python's \<open>int\<close> and \<open>float\<close> on a string
  are the parameters \<open>to_int\<close> and \<open>to_float\<close> (\<open>None\<close> where they raise
  \<open>ValueError\<close>); \<open>float\<close> takes \<open>nan\<close> and \<open>inf\<close> as it takes any number. The
  literal \<open>1.96\<close> is the double nearest to 196/100, and the integer 0 compares as the
  double 0.
\<close>

definition and_then :: "py_error + 'a \<Rightarrow> ('a \<Rightarrow> py_error + 'b) \<Rightarrow> py_error + 'b" where
  "and_then r f = (case r of Inl err \<Rightarrow> Inl err | Inr v \<Rightarrow> f v)"

definition item :: "string list \<Rightarrow> nat \<Rightarrow> py_error + string" where
  "item row i = (if i < length row then Inr (row ! i) else Inl IndexError)"

definition py_int :: "(string \<Rightarrow> int option) \<Rightarrow> string \<Rightarrow> py_error + int" where
  "py_int to_int s = (case to_int s of None \<Rightarrow> Inl (ValueError s) | Some n \<Rightarrow> Inr n)"

definition py_float :: "(string \<Rightarrow> float64 option) \<Rightarrow> string \<Rightarrow> py_error + float64" where
  "py_float to_float s = (case to_float s of None \<Rightarrow> Inl (ValueError s) | Some x \<Rightarrow> Inr x)"

definition literal_1_96 :: "rounding \<Rightarrow> float64" where
  "literal_1_96 rd = to_float64 rd (196 / 100)"

record usage_by_hour =
  hour :: int
  estimate :: float64
  low :: float64
  high :: float64

text \<open>
  One element of the comprehension. The cells are read and converted in the order in
  which the dictionary display names them; \<open>float(row[1])\<close>, which the source
  evaluates three times, gives the same value each time, and so does the product
  \<open>1.96 * float(row[2])\<close>, which it evaluates twice.
\<close>

definition usage_row ::
  "(string \<Rightarrow> int option) \<Rightarrow> (string \<Rightarrow> float64 option) \<Rightarrow> rounding \<Rightarrow> string list \<Rightarrow>
   py_error + usage_by_hour" where
  "usage_row to_int to_float rd row =
     and_then (item row 0) (\<lambda>c0. and_then (py_int to_int c0) (\<lambda>h.
     and_then (item row 1) (\<lambda>c1. and_then (py_float to_float c1) (\<lambda>e.
     and_then (item row 2) (\<lambda>c2. and_then (py_float to_float c2) (\<lambda>s.
       Inr \<lparr>hour = h, estimate = py_max e (Finite 0),
            low = py_max (float_sub rd e (float_mul rd (literal_1_96 rd) s)) (Finite 0),
            high = float_add rd e (float_mul rd (literal_1_96 rd) s)\<rparr>))))))"

fun usage_rows ::
  "(string \<Rightarrow> int option) \<Rightarrow> (string \<Rightarrow> float64 option) \<Rightarrow> rounding \<Rightarrow>
   (nat \<times> string list) list \<Rightarrow> py_error + usage_by_hour list" where
  "usage_rows to_int to_float rd [] = Inr []"
| "usage_rows to_int to_float rd ((line_num, row) # reader) =
     (if line_num > 1
      then and_then (usage_row to_int to_float rd row) (\<lambda>d.
           and_then (usage_rows to_int to_float rd reader) (\<lambda>ds. Inr (d # ds)))
      else usage_rows to_int to_float rd reader)"

text \<open>
  \<^verbatim>\<open>
  def buildDataTableJs(data=None, var_name=None, description=None,
      columns_order=None, order_by=()):
    data_table = gviz_api.DataTable(description)
    data_table.LoadData(data)
    json = data_table.ToJSon(columns_order=columns_order,order_by=order_by)
    return "%s=%s;" % (var_name, json)
  \<close>
  The library \<open>gviz_api\<close> is a parameter: \<open>to_json data\<close> is the JSON of the table
  loaded with \<open>data\<close>, for the description, the order of columns and the ordering that
  \<open>buildUsageByHourJs\<close> passes.
\<close>

definition buildDataTableJs :: "('d \<Rightarrow> string) \<Rightarrow> 'd \<Rightarrow> string \<Rightarrow> string" where
  "buildDataTableJs to_json data var_name = var_name @ ''='' @ to_json data @ '';''"

definition USAGE_BY_HOUR_JS_VAR_NAME :: string where
  "USAGE_BY_HOUR_JS_VAR_NAME = ''usage_by_hour_data''"

text \<open>
  \<open>buildUsageByHourJs\<close>: \<open>csvfile\<close> is \<open>None\<close> when the file does not exist; then the
  function prints a line and returns \<open>None\<close>. The result is paired with the lines
  printed.
\<close>

definition buildUsageByHourJs ::
  "(string \<Rightarrow> int option) \<Rightarrow> (string \<Rightarrow> float64 option) \<Rightarrow> rounding \<Rightarrow>
   (usage_by_hour list \<Rightarrow> string) \<Rightarrow> string \<Rightarrow> (nat \<times> string list) list option \<Rightarrow>
   (py_error + string option) \<times> string list" where
  "buildUsageByHourJs to_int to_float rd to_json USAGE_BY_HOUR_CSV_FILE csvfile =
     (case csvfile of
        None \<Rightarrow> (Inr None, [''File not found: '' @ USAGE_BY_HOUR_CSV_FILE])
      | Some reader \<Rightarrow>
          (case usage_rows to_int to_float rd reader of
             Inl err \<Rightarrow> (Inl err, [])
           | Inr data \<Rightarrow>
               (Inr (Some (buildDataTableJs to_json data USAGE_BY_HOUR_JS_VAR_NAME)), [])))"

text \<open>
  The data rows of a file are the rows yielded with a line number above 1. A row can be
  converted when it has three cells of which \<open>int\<close> takes the first and \<open>float\<close> the
  second and the third.
\<close>

definition data_rows :: "(nat \<times> string list) list \<Rightarrow> string list list" where
  "data_rows reader = map snd (filter (\<lambda>(line_num, row). line_num > 1) reader)"

definition converts ::
  "(string \<Rightarrow> int option) \<Rightarrow> (string \<Rightarrow> float64 option) \<Rightarrow> string list \<Rightarrow> bool" where
  "converts to_int to_float row =
     (2 < length row \<and> to_int (row ! 0) \<noteq> None \<and> to_float (row ! 1) \<noteq> None
      \<and> to_float (row ! 2) \<noteq> None)"

text \<open>
  For the examples: what \<open>int\<close> and \<open>float\<close> return on the strings that occur in
  them, and a rounding that keeps every number. The sums and differences the examples
  compute are 0, 5 and -10, which are doubles, and the literal \<open>1.96\<close> occurs in them
  only multiplied by 0 or by an infinity: rounding to doubles gives the same results.
\<close>

definition example_int :: "string \<Rightarrow> int option" where
  "example_int s = (if s = ''0'' then Some 0 else if s = ''1'' then Some 1 else None)"

definition example_float :: "string \<Rightarrow> float64 option" where
  "example_float s =
     (if s = ''0'' then Some (Finite 0)
      else if s = ''5'' then Some (Finite 5)
      else if s = ''-10'' then Some (Finite (- 10))
      else if s = ''nan'' then Some NaN
      else if s = ''inf'' then Some PosInf
      else None)"

definition example_rounding :: rounding where
  "example_rounding x = Some x"

section \<open>The randomization engine: configuration, Bloom-filter mapper, RAPPOR encoder\<close>

text \<open>
  \<open>ModuleNameRandomizer.randomize\<close> hands its entries to
  \<open>randomizer.randomizeUsingRappor\<close>. The module \<open>randomizer\<close>, the RAPPOR encoder
  behind it, its Bloom-filter mapper and its configuration are not among the sources.
  The definitions of this section follow the specification of these parts sentence by
  sentence; each names the part it stands for.
\<close>

text \<open>
  Modelled from the spec: the RAPPOR parameters of a \<open>RandomizerConfig\<close> (the
  configuration model is missing from the sources). "RAPPOR: Bloom-filter width \<open>k\<close>
  (bits), number of hash functions \<open>h\<close>, permanent-response leak probabilities \<open>(f)\<close>,
  instantaneous-response probabilities \<open>(p, q)\<close>, number of independent cohorts \<open>m\<close>."
  A probability is a rational number.
\<close>

record rappor_params =
  cfg_k :: nat
  cfg_h :: nat
  cfg_f :: rat
  cfg_p :: rat
  cfg_q :: rat
  cfg_m :: nat

text \<open>
  Modelled from the spec: the Forculus parameters of a \<open>RandomizerConfig\<close> (missing
  from the sources). "Forculus: encryption threshold \<open>t\<close>." The key derivation
  parameters, which the specification names but does not describe, are left out.
\<close>

record forculus_params =
  cfg_t :: nat

text \<open>
  Modelled from the spec: \<open>RandomizerConfig\<close> (missing from the sources), "naturally a
  tagged variant (\<open>RandomizerConfig = RAPPOR(params) | Forculus(params)\<close>)".
\<close>

datatype RandomizerConfig = RAPPOR rappor_params | Forculus forculus_params

text \<open>
  Modelled from the spec: the construction of a RAPPOR \<open>RandomizerConfig\<close> (missing
  from the sources). "Construct a RandomizerConfig from validated numeric parameters;
  reject (fails with \<open>InvalidConfig\<close>) when any probability is outside \<open>[0,1]\<close>, when
  \<open>k\<close>, \<open>h\<close>, \<open>m\<close>, or \<open>t\<close> is non-positive, or when \<open>h > k\<close>." The parameters
  arrive as integers and rationals of any sign.
\<close>

definition new_rappor_config ::
  "int \<Rightarrow> int \<Rightarrow> rat \<Rightarrow> rat \<Rightarrow> rat \<Rightarrow> int \<Rightarrow> py_error + RandomizerConfig" where
  "new_rappor_config k h f p q m =
     (if f < 0 \<or> 1 < f \<or> p < 0 \<or> 1 < p \<or> q < 0 \<or> 1 < q
         \<or> k \<le> 0 \<or> h \<le> 0 \<or> m \<le> 0 \<or> k < h
      then Inl InvalidConfig
      else Inr (RAPPOR \<lparr>cfg_k = nat k, cfg_h = nat h, cfg_f = f, cfg_p = p, cfg_q = q,
                         cfg_m = nat m\<rparr>))"

text \<open>
  Modelled from the spec: the construction of a Forculus \<open>RandomizerConfig\<close> (missing
  from the sources); it rejects a non-positive threshold \<open>t\<close>.
\<close>

definition new_forculus_config :: "int \<Rightarrow> py_error + RandomizerConfig" where
  "new_forculus_config t =
     (if t \<le> 0 then Inl InvalidConfig else Inr (Forculus \<lparr>cfg_t = nat t\<rparr>))"

text \<open>
  Modelled from the spec: the \<open>BloomFilter\<close> (missing from the sources), "a fixed-size
  bit vector of length \<open>k\<close>".
\<close>

type_synonym bit_vector = "bool list"

text \<open>
  Modelled from the spec: the single-bit vector of the Bloom-filter mapper (missing from
  the sources): of \<open>k\<close> bits, only bit \<open>i\<close> is set.
\<close>

definition single_bit :: "nat \<Rightarrow> nat \<Rightarrow> bit_vector" where
  "single_bit k i = map (\<lambda>j. j = i) [0..<k]"

text \<open>
  Modelled from the spec: the bitwise OR of two bit vectors, used by the Bloom-filter
  mapper (missing from the sources).
\<close>

definition bit_or :: "bit_vector \<Rightarrow> bit_vector \<Rightarrow> bit_vector" where
  "bit_or a b = map2 (\<or>) a b"

text \<open>
  Modelled from the spec: \<open>mapToBloom(value, cohort, config)\<close> (missing from the
  sources). "For \<open>h\<close> independent hash functions seeded by \<open>(cohort, hash_index)\<close>, set
  the bit at \<open>hashIndex(value) mod k\<close> for each of the \<open>h\<close> functions; OR all resulting
  single-bit vectors together." The specification leaves the hash family open:
  \<open>hashIndex cohort i\<close> is the hash function of index \<open>i\<close> for the cohort.
\<close>

definition mapToBloom ::
  "(nat \<Rightarrow> nat \<Rightarrow> string \<Rightarrow> nat) \<Rightarrow> string \<Rightarrow> nat \<Rightarrow> rappor_params \<Rightarrow> bit_vector" where
  "mapToBloom hashIndex v cohort config =
     foldl bit_or (replicate (cfg_k config) False)
       (map (\<lambda>i. single_bit (cfg_k config) (hashIndex cohort i v mod cfg_k config))
          [0..<cfg_h config])"

text \<open>
  Modelled from the spec: the key of the permanent-response cache of the RAPPOR encoder
  (missing from the sources), "keyed by \<open>(secret, field, cohort)\<close>".
\<close>

type_synonym cache_key = "string \<times> nat \<times> nat"

text \<open>
  Modelled from the spec: the state of one run of the RAPPOR encoder (missing from the
  sources): the permanent-response cache, "an explicit cache object passed into the
  encoder", and the number of values drawn so far from the randomness source of the run.
  The source itself is the sequence \<open>rnd\<close> of its draws, each a number from 0 up to 1;
  a draw that has been taken is never taken again.
\<close>

record run_state =
  prr_cache :: "cache_key \<rightharpoonup> bit_vector"
  draws :: nat

text \<open>
  Modelled from the spec: one bit of the permanent randomized response (missing from the
  sources). "The permanent response bit \<open>B'_i\<close> equals \<open>B_i\<close> with probability
  \<open>1-f\<close>, and is randomized to 1 with probability \<open>f/2\<close> and to 0 with probability
  \<open>f/2\<close> otherwise." \<open>u\<close> is the draw for the bit.
\<close>

definition prr_bit :: "rat \<Rightarrow> rat \<Rightarrow> bool \<Rightarrow> bool" where
  "prr_bit f u b = (if u < f / 2 then True else if u < f then False else b)"

text \<open>
  Modelled from the spec: one bit of the instantaneous randomized response (missing from
  the sources). "The reported bit is 1 with probability \<open>q\<close> if \<open>B'_i = 1\<close>, or with
  probability \<open>p\<close> if \<open>B'_i = 0\<close>." \<open>u\<close> is the draw for the bit.
\<close>

definition irr_bit :: "rat \<Rightarrow> rat \<Rightarrow> rat \<Rightarrow> bool \<Rightarrow> bool" where
  "irr_bit p q u b = (u < (if b then q else p))"

text \<open>
  Modelled from the spec: taking the next \<open>n\<close> draws from the randomness source of the
  run (missing from the sources).
\<close>

definition take_draws :: "(nat \<Rightarrow> rat) \<Rightarrow> nat \<Rightarrow> run_state \<Rightarrow> rat list \<times> run_state" where
  "take_draws rnd n s = (map rnd [draws s..<draws s + n], s\<lparr>draws := draws s + n\<rparr>)"

text \<open>
  Modelled from the spec: the permanent randomized response stage of the RAPPOR encoder
  (missing from the sources), "computed once and cached for the life of the run (keyed
  by \<open>(secret, field, cohort)\<close>)": a cached response is returned as it is; otherwise
  one is sampled bit by bit from the Bloom filter \<open>B\<close> and stored.
\<close>

definition permanent_response ::
  "(nat \<Rightarrow> rat) \<Rightarrow> rappor_params \<Rightarrow> cache_key \<Rightarrow> bit_vector \<Rightarrow> run_state \<Rightarrow>
   bit_vector \<times> run_state" where
  "permanent_response rnd config key B s =
     (case prr_cache s key of
        Some B' \<Rightarrow> (B', s)
      | None \<Rightarrow>
          (let (us, s1) = take_draws rnd (length B) s;
               B' = map2 (prr_bit (cfg_f config)) us B
           in (B', s1\<lparr>prr_cache := (prr_cache s1)(key \<mapsto> B')\<rparr>)))"

text \<open>
  Modelled from the spec: the instantaneous randomized response stage of the RAPPOR
  encoder (missing from the sources), "computed fresh for every report ... independent
  draws per bit, per report".
\<close>

definition instantaneous_response ::
  "(nat \<Rightarrow> rat) \<Rightarrow> rappor_params \<Rightarrow> bit_vector \<Rightarrow> run_state \<Rightarrow> bit_vector \<times> run_state" where
  "instantaneous_response rnd config B' s =
     (let (us, s1) = take_draws rnd (length B') s
      in (map2 (irr_bit (cfg_p config) (cfg_q config)) us B', s1))"

text \<open>
  Modelled from the spec: the \<open>EncodedReport\<close> of the RAPPOR encoder (missing from the
  sources), "a report identifier (cohort id, for RAPPOR) plus the randomized bit vector".
\<close>

record EncodedReport =
  report_cohort :: nat
  report_bits :: bit_vector

text \<open>
  Modelled from the spec: what one call of the RAPPOR encoder (missing from the sources)
  exposes: its report and, through the test hook the specification speaks of, the cache
  key and the permanent response \<open>B'\<close> it used, and the position in the randomness
  source from which its instantaneous response was drawn.
\<close>

record encoding =
  enc_key :: cache_key
  enc_prr :: bit_vector
  enc_irr_at :: nat
  enc_report :: EncodedReport

text \<open>
  Modelled from the spec: the arguments of one call of the RAPPOR encoder (missing from
  the sources): the entry, "an ordered tuple of typed field values", the field index,
  the cohort and the secret of the user.
\<close>

record request =
  req_entry :: "string list"
  req_field :: nat
  req_cohort :: nat
  req_secret :: string

text \<open>
  Modelled from the spec: \<open>encode(entry, fieldIndex, cohort, config, secretCache)\<close> of
  the RAPPOR encoder (missing from the sources): "field extraction, Bloom-filter
  mapping, permanent randomized response (cached per user+field), instantaneous
  randomized response, report assembly", failing with \<open>InvalidFieldIndex\<close> "if the
  field does not exist on the Entry's schema".
\<close>

definition encode_hooked ::
  "(nat \<Rightarrow> nat \<Rightarrow> string \<Rightarrow> nat) \<Rightarrow> (nat \<Rightarrow> rat) \<Rightarrow> rappor_params \<Rightarrow> request \<Rightarrow> run_state \<Rightarrow>
   (py_error + encoding) \<times> run_state" where
  "encode_hooked hashIndex rnd config r s =
     (if req_field r < length (req_entry r)
      then
        (let B = mapToBloom hashIndex (req_entry r ! req_field r) (req_cohort r) config;
             key = (req_secret r, req_field r, req_cohort r);
             (B', s1) = permanent_response rnd config key B s;
             (bits, s2) = instantaneous_response rnd config B' s1
         in (Inr \<lparr>enc_key = key, enc_prr = B', enc_irr_at = draws s1,
                   enc_report = \<lparr>report_cohort = req_cohort r, report_bits = bits\<rparr>\<rparr>, s2))
      else (Inl InvalidFieldIndex, s))"

text \<open>
  Modelled from the spec: \<open>encode\<close> of the RAPPOR encoder as its caller sees it (missing
  from the sources): the report alone.
\<close>

definition encode ::
  "(nat \<Rightarrow> nat \<Rightarrow> string \<Rightarrow> nat) \<Rightarrow> (nat \<Rightarrow> rat) \<Rightarrow> rappor_params \<Rightarrow> request \<Rightarrow> run_state \<Rightarrow>
   (py_error + EncodedReport) \<times> run_state" where
  "encode hashIndex rnd config r s =
     (case encode_hooked hashIndex rnd config r s of
        (Inl err, s') \<Rightarrow> (Inl err, s')
      | (Inr e, s') \<Rightarrow> (Inr (enc_report e), s'))"

text \<open>
  Modelled from the spec: one run of the RAPPOR encoder (missing from the sources) over
  a sequence of calls, "one RandomizerConfig governs many Entries within a run", the
  state of the run passed from each call to the next.
\<close>

fun run_encodings ::
  "(nat \<Rightarrow> nat \<Rightarrow> string \<Rightarrow> nat) \<Rightarrow> (nat \<Rightarrow> rat) \<Rightarrow> rappor_params \<Rightarrow> request list \<Rightarrow> run_state \<Rightarrow>
   (py_error + encoding) list \<times> run_state" where
  "run_encodings hashIndex rnd config [] s = ([], s)"
| "run_encodings hashIndex rnd config (r # rs) s =
     (let (x, s1) = encode_hooked hashIndex rnd config r s;
          (xs, s2) = run_encodings hashIndex rnd config rs s1
      in (x # xs, s2))"

section \<open>Properties of HelpQueryRandomizer.randomize\<close>

lemma getattr_entry_object:
  "getattr (entry_object e) ''help_query'' = Inr (help_query e)"
  by (simp add: getattr_def entry_object_def)

lemma write_entries_entry_objects:
  "write_entries (map entry_object es) f = (Inr (), f @ map (\<lambda>e. [help_query e]) es)"
  by (induction es arbitrary: f) (simp_all add: getattr_entry_object writerow_def)

text \<open>
  C1. The claim: for every entry the encoder emits a threshold-encryption ciphertext of
  the help query, and the plaintext value is never written to the output. The code
  writes the help query itself: for the single entry whose help query is
  \<open>how do I reset my password\<close> the one row of the output is that very string.
\<close>

theorem randomize_emits_plaintext:
  "HelpQueryRandomizer_randomize
     [entry_object \<lparr>user_id = ''7'', name = ''settings'',
        help_query = ''how do I reset my password''\<rparr>]
   = (Inr (), [[''how do I reset my password'']])"
  by (simp add: HelpQueryRandomizer_randomize_def getattr_entry_object writerow_def)

text \<open>
  C2. For every list of entries, \<open>HelpQueryRandomizer.randomize\<close> returns normally and
  the rows it has written are exactly one row per entry, in the order of the entries:
  the row of an entry is the one-cell row holding its help query. No entry is dropped
  and none is written twice.
\<close>

theorem randomize_one_row_per_entry_in_order:
  "HelpQueryRandomizer_randomize (map entry_object es) =
     (Inr (), map (\<lambda>e. [help_query e]) es)"
  by (simp add: HelpQueryRandomizer_randomize_def write_entries_entry_objects)


section \<open>Properties of the config-parser stability test\<close>

lemma main_first_call_fails:
  "env 0 (parser_cmd b d) = Inl err \<Longrightarrow>
   test_stable_config_parser_main b d env = (Inl err, \<lparr>invoked = [parser_cmd b d], printed = []\<rparr>)"
  by (simp add: test_stable_config_parser_main_def check_output_def Let_def)

lemma main_second_call_fails:
  "env 0 (parser_cmd b d) = Inr out1 \<Longrightarrow> env 1 (parser_cmd b d) = Inl err \<Longrightarrow>
   test_stable_config_parser_main b d env =
     (Inl err, \<lparr>invoked = [parser_cmd b d, parser_cmd b d], printed = []\<rparr>)"
  by (simp add: test_stable_config_parser_main_def check_output_def Let_def)

text \<open>
  C7. \<open>main\<close> starts the config parser twice, both times with the same command line.
  When the two runs return the outputs \<open>out1\<close> and \<open>out2\<close>, \<open>main\<close> raises its
  \<open>Exception\<close> if and only if the outputs differ, printing nothing; when they are
  equal it prints \<open>PASS\<close> and returns 0.
\<close>

theorem main_raises_iff_outputs_differ:
  assumes "env 0 (parser_cmd b d) = Inr out1"
    and "env 1 (parser_cmd b d) = Inr out2"
  shows "test_stable_config_parser_main b d env =
           (if out1 \<noteq> out2
            then (Inl (Exception ''Two calls to the config_parser yielded different outputs!''),
                  \<lparr>invoked = [parser_cmd b d, parser_cmd b d], printed = []\<rparr>)
            else (Inr 0, \<lparr>invoked = [parser_cmd b d, parser_cmd b d], printed = [''PASS'']\<rparr>))
         \<and> (isl (fst (test_stable_config_parser_main b d env)) = (out1 \<noteq> out2))"
  using assms
  by (simp add: test_stable_config_parser_main_def check_output_def print_line_def Let_def)

theorem main_raises_iff_outputs_differ_witness:
  "test_stable_config_parser_main ''config_parser'' ''config'' (\<lambda>n cmd. Inr ''CgQIARAB'') =
     (Inr 0, \<lparr>invoked = [parser_cmd ''config_parser'' ''config'', parser_cmd ''config_parser'' ''config''],
              printed = [''PASS'']\<rparr>)
   \<and> fst (test_stable_config_parser_main ''config_parser'' ''config''
          (\<lambda>n cmd. Inr (if n = 0 then ''CgQIARAB'' else ''CgQIARAC''))) =
     Inl (Exception ''Two calls to the config_parser yielded different outputs!'')"
  using main_raises_iff_outputs_differ
          [of "\<lambda>n cmd. Inr ''CgQIARAB''" "''config_parser''" "''config''" "''CgQIARAB''" "''CgQIARAB''"]
        main_raises_iff_outputs_differ
          [of "\<lambda>n cmd. Inr (if n = 0 then ''CgQIARAB'' else ''CgQIARAC'')"
              "''config_parser''" "''config''" "''CgQIARAB''" "''CgQIARAC''"]
  by simp

section \<open>Properties of ModuleNameRandomizer.randomize\<close>

text \<open>
  C8. With \<open>for_private_release=True\<close> the method passes the private-release RAPPOR
  config file and the private-release output file; with \<open>False\<close>, and when the argument
  is omitted, it passes the standard pair. In every case the call is
  \<open>randomizeUsingRappor\<close> on the given entries with the single parameter triple of field
  index 1, Bloom filters enabled, and the chosen config file.
\<close>

theorem module_name_randomize_selects_files:
  "ModuleNameRandomizer_randomize fu rappor entries (Some True) =
     rappor entries [(1, True, RAPPOR_MODULE_NAME_PR_CONFIG fu)]
       (MODULE_NAME_PR_RANDOMIZER_OUTPUT_FILE_NAME fu)
   \<and> ModuleNameRandomizer_randomize fu rappor entries (Some False) =
     rappor entries [(1, True, RAPPOR_MODULE_NAME_CONFIG fu)]
       (MODULE_NAME_RANDOMIZER_OUTPUT_FILE_NAME fu)
   \<and> ModuleNameRandomizer_randomize fu rappor entries None =
     rappor entries [(1, True, RAPPOR_MODULE_NAME_CONFIG fu)]
       (MODULE_NAME_RANDOMIZER_OUTPUT_FILE_NAME fu)"
  by (simp add: ModuleNameRandomizer_randomize_def)

section \<open>Properties of container\_util.main\<close>

lemma process_shuffler_yaml_file_unbound:
  "''_process_shuffler_yaml_file'' \<notin> set module_globals"
  by (simp add: module_globals_def implicit_names_def imported_names_def assigned_names_def
      function_names_def)

text \<open>
  C9. \<open>main\<close> calls \<open>_process_shuffler_yaml_file\<close>, a name the module never binds:
  every call of \<open>main\<close> raises \<open>NameError\<close> for that name and has made no call
  before it. Hence running the module as a script always fails, whatever its imports do,
  without having done any work.
\<close>

theorem container_util_main_raises_NameError:
  "container_util_main = (Inl (NameError ''_process_shuffler_yaml_file''), [])
   \<and> isl (fst (run_as_script import_failure))
   \<and> snd (run_as_script import_failure) = []
   \<and> run_as_script None = (Inl (NameError ''_process_shuffler_yaml_file''), [])"
proof -
  have m: "container_util_main = (Inl (NameError ''_process_shuffler_yaml_file''), [])"
    using process_shuffler_yaml_file_unbound
    by (simp add: container_util_main_def lookup_global_def)
  show ?thesis
    by (cases import_failure) (simp_all add: m run_as_script_def)
qed

section \<open>Properties of buildUsageByHourJs\<close>

lemma py_max_zero_not_below: "\<not> float_less (py_max x (Finite 0)) (Finite 0)"
  by (cases x) (simp_all add: py_max_def)

lemma py_max_zero_NaN: "(py_max x (Finite 0) = NaN) = (x = NaN)"
  by (cases x) (simp_all add: py_max_def)

lemma py_max_zero_le: "float_le (Finite 0) (py_max x (Finite 0)) = (x \<noteq> NaN)"
  by (cases x) (auto simp: py_max_def float_le_def)

lemma usage_row_converts:
  assumes "converts to_int to_float row"
  shows "usage_row to_int to_float rd row =
     Inr \<lparr>hour = the (to_int (row ! 0)),
          estimate = py_max (the (to_float (row ! 1))) (Finite 0),
          low = py_max (float_sub rd (the (to_float (row ! 1)))
                  (float_mul rd (literal_1_96 rd) (the (to_float (row ! 2))))) (Finite 0),
          high = float_add rd (the (to_float (row ! 1)))
                  (float_mul rd (literal_1_96 rd) (the (to_float (row ! 2))))\<rparr>"
  using assms
  by (auto simp: converts_def usage_row_def and_then_def item_def py_int_def py_float_def)

lemma usage_rows_converts:
  assumes "list_all (converts to_int to_float) (data_rows reader)"
  shows "usage_rows to_int to_float rd reader =
     Inr (map (\<lambda>row.
            \<lparr>hour = the (to_int (row ! 0)),
             estimate = py_max (the (to_float (row ! 1))) (Finite 0),
             low = py_max (float_sub rd (the (to_float (row ! 1)))
                     (float_mul rd (literal_1_96 rd) (the (to_float (row ! 2))))) (Finite 0),
             high = float_add rd (the (to_float (row ! 1)))
                     (float_mul rd (literal_1_96 rd) (the (to_float (row ! 2))))\<rparr>)
          (data_rows reader))"
  using assms
proof (induction reader)
  case Nil
  then show ?case by (simp add: data_rows_def)
next
  case (Cons lr reader)
  obtain line_num row where lr: "lr = (line_num, row)" by (cases lr)
  show ?case
  proof (cases "line_num > 1")
    case True
    with Cons.prems lr have c: "converts to_int to_float row"
      and rest: "list_all (converts to_int to_float) (data_rows reader)"
      by (simp_all add: data_rows_def)
    from True lr show ?thesis
      by (simp add: usage_row_converts [OF c] Cons.IH [OF rest] and_then_def data_rows_def)
  next
    case False
    with Cons.prems lr have rest: "list_all (converts to_int to_float) (data_rows reader)"
      by (simp add: data_rows_def)
    from False lr show ?thesis
      by (simp add: Cons.IH [OF rest] data_rows_def)
  qed
qed

lemma negative_estimate_row:
  assumes "to_int ''0'' = Some 0" and "to_float ''-10'' = Some (Finite (- 10))"
    and "to_float ''0'' = Some (Finite 0)"
    and "rd 0 = Some 0" and "rd (- 10) = Some (- 10)" and "rd (196 / 100) = Some c"
  shows "usage_row to_int to_float rd [''0'', ''-10'', ''0''] =
           Inr \<lparr>hour = 0, estimate = Finite 0, low = Finite 0, high = Finite (- 10)\<rparr>"
  using assms
  by (simp add: usage_row_def and_then_def item_def py_int_def py_float_def py_max_def
      float_sub_def literal_1_96_def to_float64_def)

text \<open>
  C10. The claim: every data row yields \<open>estimate = max(row[1], 0)\<close> and
  \<open>low = max(row[1] - 1.96 * row[2], 0)\<close>, both clamped below at 0. For the data
  row \<open>0,nan,0\<close>, which \<open>int\<close> and \<open>float\<close> convert, the estimate and the low are
  NaN, and NaN is not at least 0.
\<close>

theorem usage_rows_nan_row_counterexample:
  "usage_rows example_int example_float example_rounding
     [(1, [''hour'', ''estimate'', ''std_error'']), (2, [''0'', ''nan'', ''0''])]
   = Inr [\<lparr>hour = 0, estimate = NaN, low = NaN, high = NaN\<rparr>]
   \<and> \<not> float_le (Finite 0) NaN"
  by (simp add: usage_row_def and_then_def item_def py_int_def py_float_def py_max_def
      float_sub_def literal_1_96_def to_float64_def float_le_def
      example_int_def example_float_def example_rounding_def)

text \<open>
  C10, as amended. Every data row (a row on the first line of the file is skipped) that
  can be converted yields \<open>estimate = max(row[1], 0)\<close> and
  \<open>low = max(row[1] - 1.96 * row[2], 0)\<close>, with Python's \<open>max\<close>, and
  \<open>high = row[1] + 1.96 * row[2]\<close>. The estimate and the low are never below 0, and
  they are at least 0 unless they are NaN; \<open>max(x, 0)\<close> is NaN exactly when \<open>x\<close> is.
  The high is not clamped, so it can lie below the low: the data row \<open>0,-10,0\<close> yields
  estimate 0, low 0 and high -10.
\<close>

theorem usage_rows_clamp_estimate_and_low_not_high:
  assumes "list_all (converts to_int to_float) (data_rows reader)"
    and "to_int ''0'' = Some 0"
    and "to_float ''-10'' = Some (Finite (- 10))"
    and "to_float ''0'' = Some (Finite 0)"
    and "rd 0 = Some 0" and "rd (- 10) = Some (- 10)" and "rd (196 / 100) = Some c"
  shows "usage_rows to_int to_float rd reader =
           Inr (map (\<lambda>row.
                  \<lparr>hour = the (to_int (row ! 0)),
                   estimate = py_max (the (to_float (row ! 1))) (Finite 0),
                   low = py_max (float_sub rd (the (to_float (row ! 1)))
                           (float_mul rd (literal_1_96 rd) (the (to_float (row ! 2)))))
                         (Finite 0),
                   high = float_add rd (the (to_float (row ! 1)))
                           (float_mul rd (literal_1_96 rd) (the (to_float (row ! 2))))\<rparr>)
                (data_rows reader))
         \<and> list_all (\<lambda>d. \<not> float_less (estimate d) (Finite 0)
                         \<and> \<not> float_less (low d) (Finite 0)
                         \<and> float_le (Finite 0) (estimate d) = (estimate d \<noteq> NaN)
                         \<and> float_le (Finite 0) (low d) = (low d \<noteq> NaN))
               (projr (usage_rows to_int to_float rd reader))
         \<and> (py_max x (Finite 0) = NaN) = (x = NaN)
         \<and> (\<exists>d. usage_rows to_int to_float rd [(1, header), (2, [''0'', ''-10'', ''0''])] = Inr [d]
                \<and> estimate d = Finite 0 \<and> low d = Finite 0 \<and> high d = Finite (- 10)
                \<and> float_less (high d) (low d))"
proof -
  have rows: "usage_rows to_int to_float rd reader =
           Inr (map (\<lambda>row.
                  \<lparr>hour = the (to_int (row ! 0)),
                   estimate = py_max (the (to_float (row ! 1))) (Finite 0),
                   low = py_max (float_sub rd (the (to_float (row ! 1)))
                           (float_mul rd (literal_1_96 rd) (the (to_float (row ! 2)))))
                         (Finite 0),
                   high = float_add rd (the (to_float (row ! 1)))
                           (float_mul rd (literal_1_96 rd) (the (to_float (row ! 2))))\<rparr>)
                (data_rows reader))"
    using assms(1) by (rule usage_rows_converts)
  have clamped: "list_all (\<lambda>d. \<not> float_less (estimate d) (Finite 0)
                         \<and> \<not> float_less (low d) (Finite 0)
                         \<and> float_le (Finite 0) (estimate d) = (estimate d \<noteq> NaN)
                         \<and> float_le (Finite 0) (low d) = (low d \<noteq> NaN))
               (projr (usage_rows to_int to_float rd reader))"
    by (simp add: rows list_all_iff py_max_zero_not_below py_max_zero_le py_max_zero_NaN)
  have "usage_rows to_int to_float rd [(1, header), (2, [''0'', ''-10'', ''0''])] =
          Inr [\<lparr>hour = 0, estimate = Finite 0, low = Finite 0, high = Finite (- 10)\<rparr>]"
    by (simp add: negative_estimate_row [of to_int to_float rd c, OF assms(2-7)] and_then_def)
  then have below: "\<exists>d. usage_rows to_int to_float rd [(1, header), (2, [''0'', ''-10'', ''0''])] = Inr [d]
                \<and> estimate d = Finite 0 \<and> low d = Finite 0 \<and> high d = Finite (- 10)
                \<and> float_less (high d) (low d)"
    by simp
  from rows clamped below py_max_zero_NaN [of x] show ?thesis by blast
qed

theorem usage_rows_clamp_estimate_and_low_not_high_witness:
  "list_all (converts example_int example_float)
     (data_rows [(1, [''hour'', ''estimate'', ''std_error'']),
                 (2, [''0'', ''-10'', ''0'']), (3, [''1'', ''5'', ''0'']),
                 (4, [''1'', ''inf'', ''inf''])])
   \<and> usage_rows example_int example_float example_rounding
        [(1, [''hour'', ''estimate'', ''std_error'']),
         (2, [''0'', ''-10'', ''0'']), (3, [''1'', ''5'', ''0'']),
         (4, [''1'', ''inf'', ''inf''])]
      = Inr [\<lparr>hour = 0, estimate = Finite 0, low = Finite 0, high = Finite (- 10)\<rparr>,
             \<lparr>hour = 1, estimate = Finite 5, low = Finite 5, high = Finite 5\<rparr>,
             \<lparr>hour = 1, estimate = PosInf, low = NaN, high = PosInf\<rparr>]"
proof -
  let ?reader = "[(1::nat, [''hour'', ''estimate'', ''std_error'']),
                  (2, [''0'', ''-10'', ''0'']), (3, [''1'', ''5'', ''0'']),
                  (4, [''1'', ''inf'', ''inf''])]"
  have h: "list_all (converts example_int example_float) (data_rows ?reader)"
    by (simp add: converts_def data_rows_def example_int_def example_float_def)
  have i: "example_int ''0'' = Some 0" by (simp add: example_int_def)
  have f1: "example_float ''-10'' = Some (Finite (- 10))" by (simp add: example_float_def)
  have f2: "example_float ''0'' = Some (Finite 0)" by (simp add: example_float_def)
  have r1: "example_rounding 0 = Some 0" and r2: "example_rounding (- 10) = Some (- 10)"
    and r3: "example_rounding (196 / 100) = Some (196 / 100)"
    by (simp_all add: example_rounding_def)
  show ?thesis
    using h usage_rows_clamp_estimate_and_low_not_high
      [of example_int example_float ?reader example_rounding "196 / 100", OF h i f1 f2 r1 r2 r3]
    by (simp add: data_rows_def example_int_def example_float_def example_rounding_def
        py_max_def float_sub_def literal_1_96_def to_float64_def)
qed

section \<open>Properties of the configuration model\<close>

text \<open>
  C6. The construction of a \<open>RandomizerConfig\<close> fails, with \<open>InvalidConfig\<close>, exactly
  when a probability \<open>f\<close>, \<open>p\<close> or \<open>q\<close> lies outside \<open>[0,1]\<close>, or one of \<open>k\<close>,
  \<open>h\<close>, \<open>m\<close> (for RAPPOR) or \<open>t\<close> (for Forculus) is not positive, or \<open>h > k\<close>.
  So \<open>f = 1.5\<close> and \<open>t = 0\<close> are rejected, and beside valid other parameters the
  boundary values \<open>f = 0\<close>, \<open>f = 1\<close> and \<open>t = 1\<close> are accepted.
\<close>

theorem config_construction_fails_exactly_when_invalid:
  "(new_rappor_config k h f p q m = Inl InvalidConfig) =
     (f < 0 \<or> 1 < f \<or> p < 0 \<or> 1 < p \<or> q < 0 \<or> 1 < q \<or> k \<le> 0 \<or> h \<le> 0 \<or> m \<le> 0 \<or> k < h)
   \<and> isl (new_rappor_config k h f p q m) =
     (f < 0 \<or> 1 < f \<or> p < 0 \<or> 1 < p \<or> q < 0 \<or> 1 < q \<or> k \<le> 0 \<or> h \<le> 0 \<or> m \<le> 0 \<or> k < h)
   \<and> (new_forculus_config t = Inl InvalidConfig) = (t \<le> 0)
   \<and> isl (new_forculus_config t) = (t \<le> 0)
   \<and> new_rappor_config 16 2 (3 / 2) (1 / 4) (3 / 4) 1 = Inl InvalidConfig
   \<and> new_forculus_config 0 = Inl InvalidConfig
   \<and> new_rappor_config 16 2 0 (1 / 4) (3 / 4) 1 =
       Inr (RAPPOR \<lparr>cfg_k = 16, cfg_h = 2, cfg_f = 0, cfg_p = 1 / 4, cfg_q = 3 / 4, cfg_m = 1\<rparr>)
   \<and> new_rappor_config 16 2 1 (1 / 4) (3 / 4) 1 =
       Inr (RAPPOR \<lparr>cfg_k = 16, cfg_h = 2, cfg_f = 1, cfg_p = 1 / 4, cfg_q = 3 / 4, cfg_m = 1\<rparr>)
   \<and> new_forculus_config 1 = Inr (Forculus \<lparr>cfg_t = 1\<rparr>)"
  by (simp add: new_rappor_config_def new_forculus_config_def)

section \<open>Properties of the Bloom-filter mapper\<close>

lemma length_bit_or: "length (bit_or a b) = min (length a) (length b)"
  by (simp add: bit_or_def)

lemma foldl_bit_or_length:
  "\<forall>x \<in> set xs. length x = length acc \<Longrightarrow> length (foldl bit_or acc xs) = length acc"
  by (induction xs arbitrary: acc) (simp_all add: length_bit_or)

lemma foldl_bit_or_nth:
  "\<forall>x \<in> set xs. length x = length acc \<Longrightarrow> n < length acc \<Longrightarrow>
   foldl bit_or acc xs ! n = (acc ! n \<or> (\<exists>x \<in> set xs. x ! n))"
  by (induction xs arbitrary: acc) (auto simp: length_bit_or bit_or_def)

lemma length_mapToBloom: "length (mapToBloom H v c cfg) = cfg_k cfg"
  unfolding mapToBloom_def
  by (subst foldl_bit_or_length) (auto simp: single_bit_def)

lemma mapToBloom_nth:
  "n < cfg_k cfg \<Longrightarrow>
   mapToBloom H v c cfg ! n = (\<exists>i < cfg_h cfg. H c i v mod cfg_k cfg = n)"
  unfolding mapToBloom_def
  by (subst foldl_bit_or_nth) (auto simp: single_bit_def)

lemma new_rappor_config_Inr:
  assumes "new_rappor_config k h f p q m = Inr (RAPPOR config)"
  shows "cfg_k config = nat k" and "0 < cfg_k config" and "cfg_h config = nat h"
    and "0 < cfg_h config" and "cfg_h config \<le> cfg_k config"
  using assms by (auto simp: new_rappor_config_def split: if_splits)

text \<open>
  C5. For every valid RAPPOR configuration, every cohort and every string \<open>v\<close>, the
  empty string among them, two calls of \<open>mapToBloom\<close> with identical arguments return
  identical vectors of \<open>k\<close> bits: the vector is fixed by the arguments, its bit \<open>n\<close>
  being set exactly when one of the \<open>h\<close> hash functions of the cohort sends \<open>v\<close> to
  \<open>n\<close> modulo \<open>k\<close>.
\<close>

theorem mapToBloom_deterministic:
  assumes "new_rappor_config k h f p q m = Inr (RAPPOR config)"
    and "v' = v" and "cohort' = cohort" and "config' = config"
  shows "mapToBloom hashIndex v' cohort' config' = mapToBloom hashIndex v cohort config
    \<and> length (mapToBloom hashIndex v cohort config) = nat k
    \<and> length (mapToBloom hashIndex [] cohort config) = nat k
    \<and> (\<forall>n < nat k. mapToBloom hashIndex v cohort config ! n =
          (\<exists>i < nat h. hashIndex cohort i v mod nat k = n))"
  using assms(2,3,4) new_rappor_config_Inr(1,3) [OF assms(1)]
    mapToBloom_nth [of _ config hashIndex v cohort]
  by (simp add: length_mapToBloom)

theorem mapToBloom_deterministic_witness:
  "new_rappor_config 4 2 (1 / 2) (1 / 4) (3 / 4) 1 =
     Inr (RAPPOR \<lparr>cfg_k = 4, cfg_h = 2, cfg_f = 1 / 2, cfg_p = 1 / 4, cfg_q = 3 / 4, cfg_m = 1\<rparr>)
   \<and> mapToBloom (\<lambda>c i v. length v + i + c) [] 0
        \<lparr>cfg_k = 4, cfg_h = 2, cfg_f = 1 / 2, cfg_p = 1 / 4, cfg_q = 3 / 4, cfg_m = 1\<rparr>
      = [True, True, False, False]
   \<and> length (mapToBloom (\<lambda>c i v. length v + i + c) [] 0
        \<lparr>cfg_k = 4, cfg_h = 2, cfg_f = 1 / 2, cfg_p = 1 / 4, cfg_q = 3 / 4, cfg_m = 1\<rparr>) = 4"
proof -
  let ?config = "\<lparr>cfg_k = 4, cfg_h = 2, cfg_f = 1 / 2, cfg_p = 1 / 4, cfg_q = 3 / 4, cfg_m = 1\<rparr>"
  have valid: "new_rappor_config 4 2 (1 / 2) (1 / 4) (3 / 4) 1 = Inr (RAPPOR ?config)"
    by (simp add: new_rappor_config_def)
  have bloom: "mapToBloom (\<lambda>c i v. length v + i + c) [] 0 ?config = [True, True, False, False]"
    by code_simp
  from mapToBloom_deterministic [OF valid refl refl refl, of "\<lambda>c i v. length v + i + c" "[]" 0]
    valid bloom
  show ?thesis by simp
qed

section \<open>Properties of the RAPPOR encoder\<close>

lemma permanent_response_cached:
  "prr_cache s key = Some B' \<Longrightarrow> permanent_response rnd cfg key B s = (B', s)"
  by (simp add: permanent_response_def)

lemma permanent_response_keeps:
  "permanent_response rnd cfg key B s = (B', s1) \<Longrightarrow> prr_cache s key' = Some C \<Longrightarrow>
   prr_cache s1 key' = Some C"
  by (auto simp: permanent_response_def take_draws_def Let_def split: option.splits)

lemma permanent_response_stores:
  "permanent_response rnd cfg key B s = (B', s1) \<Longrightarrow> prr_cache s1 key = Some B'"
  by (auto simp: permanent_response_def take_draws_def Let_def split: option.splits)

lemma permanent_response_draws:
  "permanent_response rnd cfg key B s = (B', s1) \<Longrightarrow> draws s \<le> draws s1"
  by (auto simp: permanent_response_def take_draws_def Let_def split: option.splits)

lemma permanent_response_length:
  "permanent_response rnd cfg key B s = (B', s1) \<Longrightarrow> prr_cache s key = None \<Longrightarrow>
   length B' = length B"
  by (auto simp: permanent_response_def take_draws_def Let_def split: option.splits)

lemma instantaneous_response_eq:
  "instantaneous_response rnd cfg B' s =
     (map (\<lambda>n. irr_bit (cfg_p cfg) (cfg_q cfg) (rnd (draws s + n)) (B' ! n)) [0..<length B'],
      s\<lparr>draws := draws s + length B'\<rparr>)"
  by (auto simp: instantaneous_response_def take_draws_def Let_def intro!: nth_equalityI)


lemma encode_hooked_fails:
  "\<not> req_field r < length (req_entry r) \<Longrightarrow>
   encode_hooked H rnd cfg r s = (Inl InvalidFieldIndex, s)"
  by (simp add: encode_hooked_def)

lemma encode_hooked_succeeds:
  assumes "req_field r < length (req_entry r)"
    and "permanent_response rnd cfg (req_secret r, req_field r, req_cohort r)
           (mapToBloom H (req_entry r ! req_field r) (req_cohort r) cfg) s = (B', s1)"
  shows "encode_hooked H rnd cfg r s =
     (Inr \<lparr>enc_key = (req_secret r, req_field r, req_cohort r), enc_prr = B',
            enc_irr_at = draws s1,
            enc_report = \<lparr>report_cohort = req_cohort r,
              report_bits = map (\<lambda>n. irr_bit (cfg_p cfg) (cfg_q cfg) (rnd (draws s1 + n)) (B' ! n))
                              [0..<length B']\<rparr>\<rparr>,
      s1\<lparr>draws := draws s1 + length B'\<rparr>)"
  using assms by (simp add: encode_hooked_def instantaneous_response_eq)

lemma encode_hooked_keeps:
  assumes "encode_hooked H rnd cfg r s = (x, s')" and "prr_cache s key = Some C"
  shows "prr_cache s' key = Some C"
proof (cases "req_field r < length (req_entry r)")
  case True
  obtain B' s1 where p: "permanent_response rnd cfg (req_secret r, req_field r, req_cohort r)
           (mapToBloom H (req_entry r ! req_field r) (req_cohort r) cfg) s = (B', s1)"
    by (cases "permanent_response rnd cfg (req_secret r, req_field r, req_cohort r)
           (mapToBloom H (req_entry r ! req_field r) (req_cohort r) cfg) s")
  from permanent_response_keeps [OF p assms(2)] assms(1) show ?thesis
    by (auto simp: encode_hooked_succeeds [OF True p])
next
  case False
  with assms show ?thesis by (simp add: encode_hooked_fails)
qed

lemma encode_hooked_draws:
  assumes "encode_hooked H rnd cfg r s = (x, s')"
  shows "draws s \<le> draws s'"
proof (cases "req_field r < length (req_entry r)")
  case True
  obtain B' s1 where p: "permanent_response rnd cfg (req_secret r, req_field r, req_cohort r)
           (mapToBloom H (req_entry r ! req_field r) (req_cohort r) cfg) s = (B', s1)"
    by (cases "permanent_response rnd cfg (req_secret r, req_field r, req_cohort r)
           (mapToBloom H (req_entry r ! req_field r) (req_cohort r) cfg) s")
  from permanent_response_draws [OF p] assms(1) show ?thesis
    by (auto simp: encode_hooked_succeeds [OF True p])
next
  case False
  with assms show ?thesis by (simp add: encode_hooked_fails)
qed

lemma encode_hooked_Inr:
  assumes "encode_hooked H rnd cfg r s = (Inr a, s')"
  shows "prr_cache s' (enc_key a) = Some (enc_prr a)"
    and "draws s \<le> enc_irr_at a"
    and "draws s' = enc_irr_at a + length (enc_prr a)"
    and "prr_cache s (enc_key a) = Some C \<Longrightarrow> enc_prr a = C"
    and "enc_key a = (req_secret r, req_field r, req_cohort r)"
    and "report_bits (enc_report a) =
           map (\<lambda>n. irr_bit (cfg_p cfg) (cfg_q cfg) (rnd (enc_irr_at a + n)) (enc_prr a ! n))
             [0..<length (enc_prr a)]"
proof -
  have f: "req_field r < length (req_entry r)"
    using assms by (auto simp: encode_hooked_def split: if_splits)
  obtain B' s1 where p: "permanent_response rnd cfg (req_secret r, req_field r, req_cohort r)
           (mapToBloom H (req_entry r ! req_field r) (req_cohort r) cfg) s = (B', s1)"
    by (cases "permanent_response rnd cfg (req_secret r, req_field r, req_cohort r)
           (mapToBloom H (req_entry r ! req_field r) (req_cohort r) cfg) s")
  note e = assms [unfolded encode_hooked_succeeds [OF f p]]
  from e permanent_response_stores [OF p]
  show "prr_cache s' (enc_key a) = Some (enc_prr a)" by auto
  from e permanent_response_draws [OF p]
  show "draws s \<le> enc_irr_at a" by auto
  from e show "draws s' = enc_irr_at a + length (enc_prr a)" by auto
  from e show "enc_key a = (req_secret r, req_field r, req_cohort r)" by auto
  from e show "report_bits (enc_report a) =
           map (\<lambda>n. irr_bit (cfg_p cfg) (cfg_q cfg) (rnd (enc_irr_at a + n)) (enc_prr a ! n))
             [0..<length (enc_prr a)]" by auto
  show "enc_prr a = C" if c: "prr_cache s (enc_key a) = Some C"
  proof -
    from e have k: "enc_key a = (req_secret r, req_field r, req_cohort r)" by auto
    from p permanent_response_cached [OF c [unfolded k], of rnd cfg] e show ?thesis by auto
  qed
qed

lemma run_encodings_Cons:
  assumes "run_encodings H rnd cfg (r # rs) s = (xs, s')"
  obtains x s1 xs' where "encode_hooked H rnd cfg r s = (x, s1)"
    and "run_encodings H rnd cfg rs s1 = (xs', s')" and "xs = x # xs'"
  using assms by (auto simp: Let_def split: prod.splits)

lemma run_encodings_keeps:
  "run_encodings H rnd cfg rs s = (xs, s') \<Longrightarrow> prr_cache s key = Some C \<Longrightarrow>
   prr_cache s' key = Some C"
proof (induction rs arbitrary: s xs)
  case Nil
  then show ?case by simp
next
  case (Cons r rs)
  from Cons.prems(1) obtain x s1 xs' where e: "encode_hooked H rnd cfg r s = (x, s1)"
    and t: "run_encodings H rnd cfg rs s1 = (xs', s')" by (rule run_encodings_Cons)
  from Cons.IH [OF t encode_hooked_keeps [OF e Cons.prems(2)]] show ?case .
qed

lemma run_encodings_draws:
  "run_encodings H rnd cfg rs s = (xs, s') \<Longrightarrow> draws s \<le> draws s'"
proof (induction rs arbitrary: s xs)
  case Nil
  then show ?case by simp
next
  case (Cons r rs)
  from Cons.prems(1) obtain x s1 xs' where e: "encode_hooked H rnd cfg r s = (x, s1)"
    and t: "run_encodings H rnd cfg rs s1 = (xs', s')" by (rule run_encodings_Cons)
  from Cons.IH [OF t] encode_hooked_draws [OF e] show ?case by simp
qed

lemma run_encodings_later:
  "run_encodings H rnd cfg rs s = (xs, s') \<Longrightarrow> j < length xs \<Longrightarrow> xs ! j = Inr b \<Longrightarrow>
   draws s \<le> enc_irr_at b \<and> (\<forall>C. prr_cache s (enc_key b) = Some C \<longrightarrow> enc_prr b = C)"
proof (induction rs arbitrary: s xs j)
  case Nil
  then show ?case by simp
next
  case (Cons r rs)
  from Cons.prems(1) obtain x s1 xs' where e: "encode_hooked H rnd cfg r s = (x, s1)"
    and t: "run_encodings H rnd cfg rs s1 = (xs', s')" and xs: "xs = x # xs'"
    by (rule run_encodings_Cons)
  show ?case
  proof (cases j)
    case 0
    with Cons.prems(3) xs have "x = Inr b" by simp
    with e encode_hooked_Inr(2,4) [of H rnd cfg r s b s1] show ?thesis by blast
  next
    case (Suc j')
    with Cons.prems(2,3) xs have "j' < length xs'" and "xs' ! j' = Inr b" by simp_all
    from Cons.IH [OF t this] encode_hooked_draws [OF e] encode_hooked_keeps [OF e]
    show ?thesis by (meson le_trans)
  qed
qed

lemma run_encodings_pair:
  "run_encodings H rnd cfg rs s = (xs, s') \<Longrightarrow> i < j \<Longrightarrow> j < length xs \<Longrightarrow>
   xs ! i = Inr a \<Longrightarrow> xs ! j = Inr b \<Longrightarrow>
   (enc_key a = enc_key b \<longrightarrow> enc_prr a = enc_prr b)
   \<and> enc_irr_at a + length (enc_prr a) \<le> enc_irr_at b"
proof (induction rs arbitrary: s xs i j)
  case Nil
  then show ?case by simp
next
  case (Cons r rs)
  from Cons.prems(1) obtain x s1 xs' where e: "encode_hooked H rnd cfg r s = (x, s1)"
    and t: "run_encodings H rnd cfg rs s1 = (xs', s')" and xs: "xs = x # xs'"
    by (rule run_encodings_Cons)
  from Cons.prems(2) obtain j' where j: "j = Suc j'" by (cases j) auto
  with Cons.prems(3,5) xs have j': "j' < length xs'" and b: "xs' ! j' = Inr b" by simp_all
  show ?case
  proof (cases i)
    case 0
    with Cons.prems(4) xs have "x = Inr a" by simp
    with e have ea: "encode_hooked H rnd cfg r s = (Inr a, s1)" by simp
    from run_encodings_later [OF t j' b] encode_hooked_Inr(1,3) [OF ea]
    show ?thesis by auto
  next
    case (Suc i')
    with Cons.prems(2,4) xs j have "i' < j'" and "xs' ! i' = Inr a" by simp_all
    from Cons.IH [OF t this(1) j' this(2) b] show ?thesis .
  qed
qed


lemma run_encodings_elem:
  "run_encodings H rnd cfg rs s = (xs, s') \<Longrightarrow> i < length xs \<Longrightarrow> xs ! i = Inr a \<Longrightarrow>
   prr_cache s' (enc_key a) = Some (enc_prr a)
   \<and> report_bits (enc_report a) =
       map (\<lambda>n. irr_bit (cfg_p cfg) (cfg_q cfg) (rnd (enc_irr_at a + n)) (enc_prr a ! n))
         [0..<length (enc_prr a)]"
proof (induction rs arbitrary: s xs i)
  case Nil
  then show ?case by simp
next
  case (Cons r rs)
  from Cons.prems(1) obtain x s1 xs' where e: "encode_hooked H rnd cfg r s = (x, s1)"
    and t: "run_encodings H rnd cfg rs s1 = (xs', s')" and xs: "xs = x # xs'"
    by (rule run_encodings_Cons)
  show ?case
  proof (cases i)
    case 0
    with Cons.prems(3) xs have "x = Inr a" by simp
    with e have ea: "encode_hooked H rnd cfg r s = (Inr a, s1)" by simp
    from run_encodings_keeps [OF t encode_hooked_Inr(1) [OF ea]] encode_hooked_Inr(6) [OF ea]
    show ?thesis by simp
  next
    case (Suc i')
    with Cons.prems(2,3) xs have "i' < length xs'" and "xs' ! i' = Inr a" by simp_all
    from Cons.IH [OF t this] show ?thesis .
  qed
qed

lemma length_run_encodings:
  "length (fst (run_encodings H rnd cfg rs s)) = length rs"
proof (induction rs arbitrary: s)
  case Nil
  show ?case by simp
next
  case (Cons r rs)
  obtain xs s' where run: "run_encodings H rnd cfg (r # rs) s = (xs, s')"
    by (cases "run_encodings H rnd cfg (r # rs) s")
  from run obtain x s1 xs' where t: "run_encodings H rnd cfg rs s1 = (xs', s')"
    and xs: "xs = x # xs'" by (rule run_encodings_Cons)
  from Cons.IH [of s1] t have "length xs' = length rs" by simp
  with run xs show ?case by simp
qed

text \<open>
  C4. Within one run, any two encodings under the same \<open>(secret, field, cohort)\<close> key
  use the identical permanent randomized response \<open>B'\<close>, which is the one the cache
  holds for the key; the instantaneous randomized response of each encoding is sampled
  from \<open>B'\<close> with draws of its own: the later encoding draws from positions of the
  randomness source beyond all those the earlier one has drawn from.
\<close>

theorem prr_cached_irr_fresh:
  assumes "i < j" and "j < length reqs"
    and "fst (run_encodings hashIndex rnd config reqs s0) ! i = Inr a"
    and "fst (run_encodings hashIndex rnd config reqs s0) ! j = Inr b"
    and "enc_key a = enc_key b"
  shows "enc_prr a = enc_prr b
    \<and> prr_cache (snd (run_encodings hashIndex rnd config reqs s0)) (enc_key a) = Some (enc_prr a)
    \<and> report_bits (enc_report a) =
        map (\<lambda>n. irr_bit (cfg_p config) (cfg_q config) (rnd (enc_irr_at a + n)) (enc_prr a ! n))
          [0..<length (enc_prr a)]
    \<and> report_bits (enc_report b) =
        map (\<lambda>n. irr_bit (cfg_p config) (cfg_q config) (rnd (enc_irr_at b + n)) (enc_prr b ! n))
          [0..<length (enc_prr b)]
    \<and> enc_irr_at a + length (enc_prr a) \<le> enc_irr_at b"
proof -
  obtain xs s where run: "run_encodings hashIndex rnd config reqs s0 = (xs, s)"
    by (cases "run_encodings hashIndex rnd config reqs s0")
  from run length_run_encodings [of hashIndex rnd config reqs s0] assms(2)
  have j: "j < length xs" by simp
  with assms(1) have i: "i < length xs" by simp
  from assms(3,4) run have a: "xs ! i = Inr a" and b: "xs ! j = Inr b" by simp_all
  from run_encodings_pair [OF run assms(1) j a b] assms(5)
  have same: "enc_prr a = enc_prr b"
    and fresh: "enc_irr_at a + length (enc_prr a) \<le> enc_irr_at b" by blast+
  from run_encodings_elem [OF run i a] run
  have cached: "prr_cache (snd (run_encodings hashIndex rnd config reqs s0)) (enc_key a)
      = Some (enc_prr a)"
    and irr_a: "report_bits (enc_report a) =
        map (\<lambda>n. irr_bit (cfg_p config) (cfg_q config) (rnd (enc_irr_at a + n)) (enc_prr a ! n))
          [0..<length (enc_prr a)]" by simp_all
  from run_encodings_elem [OF run j b]
  have irr_b: "report_bits (enc_report b) =
        map (\<lambda>n. irr_bit (cfg_p config) (cfg_q config) (rnd (enc_irr_at b + n)) (enc_prr b ! n))
          [0..<length (enc_prr b)]" by simp
  from same cached irr_a irr_b fresh show ?thesis by blast
qed

theorem prr_cached_irr_fresh_witness:
  "fst (run_encodings (\<lambda>c i v. length v + i + c) (\<lambda>n. of_nat ((n * 7) mod 10) / 10)
     \<lparr>cfg_k = 4, cfg_h = 2, cfg_f = 1 / 2, cfg_p = 1 / 4, cfg_q = 3 / 4, cfg_m = 1\<rparr>
     [\<lparr>req_entry = [''7'', ''settings''], req_field = 1, req_cohort = 0, req_secret = ''s7''\<rparr>,
      \<lparr>req_entry = [''7'', ''settings''], req_field = 1, req_cohort = 0, req_secret = ''s7''\<rparr>]
     \<lparr>prr_cache = Map.empty, draws = 0\<rparr>) =
    [Inr \<lparr>enc_key = (''s7'', 1, 0), enc_prr = [True, True, False, True], enc_irr_at = 4,
           enc_report = \<lparr>report_cohort = 0, report_bits = [False, True, True, False]\<rparr>\<rparr>,
     Inr \<lparr>enc_key = (''s7'', 1, 0), enc_prr = [True, True, False, True], enc_irr_at = 8,
           enc_report = \<lparr>report_cohort = 0, report_bits = [True, True, True, True]\<rparr>\<rparr>]
   \<and> prr_cache
       (snd (run_encodings (\<lambda>c i v. length v + i + c) (\<lambda>n. of_nat ((n * 7) mod 10) / 10)
          \<lparr>cfg_k = 4, cfg_h = 2, cfg_f = 1 / 2, cfg_p = 1 / 4, cfg_q = 3 / 4, cfg_m = 1\<rparr>
          [\<lparr>req_entry = [''7'', ''settings''], req_field = 1, req_cohort = 0, req_secret = ''s7''\<rparr>,
           \<lparr>req_entry = [''7'', ''settings''], req_field = 1, req_cohort = 0, req_secret = ''s7''\<rparr>]
          \<lparr>prr_cache = Map.empty, draws = 0\<rparr>))
       (''s7'', 1, 0) = Some [True, True, False, True]"
proof -
  let ?H = "\<lambda>c i v. length (v::string) + i + (c::nat)"
  let ?rnd = "\<lambda>n::nat. (of_nat ((n * 7) mod 10) / 10 :: rat)"
  let ?config = "\<lparr>cfg_k = 4, cfg_h = 2, cfg_f = 1 / 2, cfg_p = 1 / 4, cfg_q = 3 / 4, cfg_m = 1\<rparr>"
  let ?r = "\<lparr>req_entry = [''7'', ''settings''], req_field = 1, req_cohort = 0, req_secret = ''s7''\<rparr>"
  let ?s0 = "\<lparr>prr_cache = Map.empty, draws = 0\<rparr>"
  let ?a = "\<lparr>enc_key = (''s7'', 1, 0), enc_prr = [True, True, False, True], enc_irr_at = 4,
           enc_report = \<lparr>report_cohort = 0, report_bits = [False, True, True, False]\<rparr>\<rparr>"
  let ?b = "\<lparr>enc_key = (''s7'', 1, 0), enc_prr = [True, True, False, True], enc_irr_at = 8,
           enc_report = \<lparr>report_cohort = 0, report_bits = [True, True, True, True]\<rparr>\<rparr>"
  have run: "fst (run_encodings ?H ?rnd ?config [?r, ?r] ?s0) = [Inr ?a, Inr ?b]"
    by code_simp
  have a: "fst (run_encodings ?H ?rnd ?config [?r, ?r] ?s0) ! 0 = Inr ?a"
    and b: "fst (run_encodings ?H ?rnd ?config [?r, ?r] ?s0) ! 1 = Inr ?b"
    unfolding run by simp_all
  have ij: "(0::nat) < 1" and j: "1 < length [?r, ?r]" and k: "enc_key ?a = enc_key ?b"
    by simp_all
  from prr_cached_irr_fresh [OF ij j a b k] run
  show ?thesis by simp
qed

end
